theory Spec2Isabelle
  imports Main "HOL-Library.Sublist"
begin

section \<open>Files, URLs and the helpers of lib/fs.js\<close>

text \<open>
  The adapters of packages/integrations/zeabur are glue: every hook computes a few URLs and
  names and hands them to helpers that touch the disk. The embedding threads a \<^verbatim>\<open>world\<close>
  through the hooks: the files on disk (by URL), the record of the helper calls in the order
  in which they were made, and the lines written with \<^verbatim>\<open>console.warn\<close>. A URL is its
  href, a string; a directory URL ends with a slash.
\<close>

type_synonym url = string

datatype json =
    JString string
  | JBool bool
  | JArray "json list"
  | JObject "(string \<times> json) list"

datatype content = JsonFile json | Blob string

record copy_args =
  copy_entry :: url
  copy_outDir :: url
  copy_includeFiles :: "url list"
  copy_excludeFiles :: "url list"

datatype call =
    EmptyDir url
  | RemoveDir url
  | WriteJson url json
  | CopyDependencies copy_args
  | GenerateEdgeMiddleware url string url

record world =
  files :: "url \<rightharpoonup> content"
  calls :: "call list"
  console :: "string list"

text \<open>
  A thrown value is the object the handlers inspect: a name, a message and the optional
  \<^verbatim>\<open>status\<close> and \<^verbatim>\<open>reason\<close> properties.
\<close>

record js_error =
  err_name :: string
  err_message :: string
  err_status :: "int option"
  err_reason :: "string option"

definition TypeError :: "string \<Rightarrow> js_error" where
  "TypeError msg = \<lparr>err_name = ''TypeError'', err_message = msg, err_status = None, err_reason = None\<rparr>"

text \<open>
  What the code takes from Node, from its libraries and from the modules of the package that
  are not among the sources is a parameter of the embedding: the WHATWG URL constructor
  \<^verbatim>\<open>new URL(relative, base)\<close>, \<^verbatim>\<open>getOutput\<close> of lib/fs.js, the two conversions of
  node:url, \<^verbatim>\<open>glob.sync\<close> (which returns the paths found or throws, as fast-glob does
  on an empty pattern), the list of files the dependency tracer finds for an entry
  (a path relative to the function folder and the content), the URL and the content of the
  bundle that generateEdgeMiddleware produces, \<^verbatim>\<open>process.version\<close>, and the date that
  \<^verbatim>\<open>Intl.DateTimeFormat\<close> prints.
\<close>

record platform =
  new_URL :: "string \<Rightarrow> url \<Rightarrow> url"
  getOutput :: "url \<Rightarrow> url"
  fileURLToPath :: "url \<Rightarrow> string"
  pathToFileURL :: "string \<Rightarrow> url"
  glob_sync :: "string \<Rightarrow> js_error + string list"
  nodeFileTrace :: "copy_args \<Rightarrow> (string \<times> content) list"
  bundled_middleware :: "url \<Rightarrow> string \<Rightarrow> url \<Rightarrow> url \<times> content"
  process_version :: string
  format_date :: "string \<Rightarrow> string"

text \<open>A file lies in a directory when the directory's href is a prefix of its own.\<close>

definition inside :: "url \<Rightarrow> url \<Rightarrow> bool" where
  "inside dir u = (take (length dir) u = dir)"

text \<open>
  Modelled from the spec: writeJson of lib/fs.js is not among the sources; the spec calls it
  "a JSON config writer". It stores the value as the file at that URL.
\<close>

definition writeJson :: "url \<Rightarrow> json \<Rightarrow> world \<Rightarrow> world" where
  "writeJson path data w =
     w\<lparr>files := (files w)(path \<mapsto> JsonFile data), calls := calls w @ [WriteJson path data]\<rparr>"

text \<open>
  Modelled from the spec: emptyDir of lib/fs.js is not among the sources; the spec calls it
  "a static-file emptier". It removes every file that lies in the directory.
\<close>

definition emptyDir :: "url \<Rightarrow> world \<Rightarrow> world" where
  "emptyDir dir w =
     w\<lparr>files := (\<lambda>u. if inside dir u then None else files w u), calls := calls w @ [EmptyDir dir]\<rparr>"

text \<open>
  Modelled from the spec: removeDir of lib/fs.js is not among the sources; the adapter uses
  it to "remove temporary folder". It removes the directory with every file in it.
\<close>

definition removeDir :: "url \<Rightarrow> world \<Rightarrow> world" where
  "removeDir dir w =
     w\<lparr>files := (\<lambda>u. if inside dir u then None else files w u), calls := calls w @ [RemoveDir dir]\<rparr>"

section \<open>The configuration the hooks read\<close>

text \<open>
  \<^verbatim>\<open>vite.assetsInclude\<close> is a string, a regular expression or an array of these; the
  adapter looks at strings and arrays only.
\<close>

datatype glob_pattern = GString string | GArray "glob_pattern list" | GRegExp

datatype output_mode = Static | Server | Hybrid

record config =
  root :: url
  srcDir :: url
  outDir :: url
  build_server :: url
  build_serverEntry :: string
  config_output :: output_mode
  vite_assetsInclude :: "glob_pattern option"

section \<open>static/adapter.ts\<close>

text \<open>
  The closure of vercelStatic holds \<^verbatim>\<open>_config\<close>, assigned by astro:config:done; the two
  build hooks read its root. They are given the configuration that hook stored.
\<close>

definition static_manifest :: json where
  "static_manifest =
     JObject [(''routes'', JArray [JObject [(''src'', JString ''.*''), (''dest'', JString ''/__astro'')]]),
              (''containerized'', JBool False)]"

definition vercelStatic_build_start :: "platform \<Rightarrow> config \<Rightarrow> world \<Rightarrow> world" where
  "vercelStatic_build_start P cfg w = emptyDir (getOutput P (root cfg)) w"

definition vercelStatic_build_done :: "platform \<Rightarrow> config \<Rightarrow> world \<Rightarrow> world" where
  "vercelStatic_build_done P cfg w =
     writeJson (new_URL P ''./config.json'' (getOutput P (root cfg))) static_manifest w"

section \<open>Strings and paths as JavaScript and Node handle them\<close>

definition startsWith :: "string \<Rightarrow> string \<Rightarrow> bool" where
  "startsWith s p = (take (length p) s = p)"

text \<open>
  \<^verbatim>\<open>s.replace(pat, rep)\<close> with a string pattern replaces the first occurrence of the
  pattern, wherever it stands, and leaves a string without one as it is. The replacement is
  taken as it is written; the adapter passes the empty string.
\<close>

fun js_replace :: "string \<Rightarrow> string \<Rightarrow> string \<Rightarrow> string" where
  "js_replace pat rep [] = (if pat = [] then rep else [])"
| "js_replace pat rep (c # cs) =
     (if startsWith (c # cs) pat then rep @ drop (length pat) (c # cs)
      else c # js_replace pat rep cs)"

text \<open>\<^verbatim>\<open>s.replace(/\.mjs$/, '')\<close>: the pattern matches at the end of the string only.\<close>

definition remove_mjs :: "string \<Rightarrow> string" where
  "remove_mjs s =
     (if 4 \<le> length s \<and> drop (length s - 4) s = ''.mjs'' then take (length s - 4) s else s)"

text \<open>
  \<^verbatim>\<open>basename\<close> of node:path (POSIX) on a URL's href: trailing slashes are ignored and
  the part after the last remaining slash is returned.
\<close>

definition basename :: "string \<Rightarrow> string" where
  "basename p =
     rev (takeWhile (\<lambda>c. c \<noteq> CHR ''/'') (dropWhile (\<lambda>c. c = CHR ''/'') (rev p)))"

section \<open>serverless/adapter.ts\<close>

text \<open>
  The file holds two revisions of the adapter; the first one, which validates the Node.js
  runtime, is the one embedded.
\<close>

definition PACKAGE_NAME :: string where
  "PACKAGE_NAME = ''@zeabur/astro-adapter/serverless''"


subsection \<open>validateRuntime\<close>

datatype support = Current | Beta | Deprecated string

definition SUPPORTED_NODE_VERSIONS :: "(string \<times> support) list" where
  "SUPPORTED_NODE_VERSIONS =
     [(''16'', Deprecated ''February 6 2024''), (''18'', Current), (''20'', Beta)]"

text \<open>
  The table is an object literal, so a property read that misses its own keys falls through
  to \<^verbatim>\<open>Object.prototype\<close>: for these names the read yields a function or an object,
  whose \<^verbatim>\<open>status\<close> is undefined; for every other name the read yields undefined.
\<close>

definition Object_prototype :: "string list" where
  "Object_prototype =
     [''constructor'', ''__defineGetter__'', ''__defineSetter__'', ''hasOwnProperty'',
      ''__lookupGetter__'', ''__lookupSetter__'', ''isPrototypeOf'', ''propertyIsEnumerable'',
      ''toString'', ''valueOf'', ''__proto__'', ''toLocaleString'']"

datatype lookup = Undefined | Own support | Inherited

definition lookup_version :: "string \<Rightarrow> lookup" where
  "lookup_version major =
     (case map_of SUPPORTED_NODE_VERSIONS major of
        Some s \<Rightarrow> Own s
      | None \<Rightarrow> if major \<in> set Object_prototype then Inherited else Undefined)"

definition major_of :: "string \<Rightarrow> string" where
  "major_of process_version_string = takeWhile (\<lambda>c. c \<noteq> CHR ''.'') (drop 1 process_version_string)"

text \<open>Reading \<^verbatim>\<open>support.status\<close> throws when \<^verbatim>\<open>support\<close> is undefined.\<close>

definition read_status :: "lookup \<Rightarrow> js_error + support option" where
  "read_status support =
     (case support of
        Undefined \<Rightarrow> Inl (TypeError ''Cannot read properties of undefined (reading 'status')'')
      | Own s \<Rightarrow> Inr (Some s)
      | Inherited \<Rightarrow> Inr None)"

definition warn :: "string list \<Rightarrow> world \<Rightarrow> world" where
  "warn lines w = w\<lparr>console := console w @ lines\<rparr>"

definition beta_warnings :: "string \<Rightarrow> string list" where
  "beta_warnings major =
     [''['' @ PACKAGE_NAME @ ''] The local Node.js version ('' @ major @
        '') is currently in beta for Vercel Serverless Functions.'',
      ''['' @ PACKAGE_NAME @ ''] Make sure to update your Vercel settings to use '' @ major @ ''.'']"

definition unsupported_warnings :: "string \<Rightarrow> string list" where
  "unsupported_warnings major =
     [''['' @ PACKAGE_NAME @ ''] The local Node.js version ('' @ major @
        '') is not supported by Vercel Serverless Functions.'',
      ''['' @ PACKAGE_NAME @ ''] Your project will use Node.js 18 as the runtime instead.'',
      ''['' @ PACKAGE_NAME @ ''] Consider switching your local version to 18.'']"

definition deprecated_warnings :: "platform \<Rightarrow> string \<Rightarrow> string \<Rightarrow> string list" where
  "deprecated_warnings P major removal =
     [''['' @ PACKAGE_NAME @ ''] Your project is being built for Node.js '' @ major @
        '' as the runtime.'',
      ''['' @ PACKAGE_NAME @
        ''] This version is deprecated by Vercel Serverless Functions, and scheduled to be disabled on ''
        @ format_date P removal @ ''.'',
      ''['' @ PACKAGE_NAME @ ''] Consider upgrading your local version to 18.'']"

text \<open>The three tests stand in the order of the source, the first one reading the status.\<close>

definition validateRuntime :: "platform \<Rightarrow> world \<Rightarrow> js_error + world" where
  "validateRuntime P w =
     (let major = major_of (process_version P);
          support = lookup_version major
      in case read_status support of
           Inl e \<Rightarrow> Inl e
         | Inr status \<Rightarrow>
             if status = Some Beta then Inr (warn (beta_warnings major) w)
             else if support = Undefined then Inr (warn (unsupported_warnings major) w)
             else (case status of
                     Some (Deprecated removal) \<Rightarrow> Inr (warn (deprecated_warnings P major removal) w)
                   | _ \<Rightarrow> Inr w))"

subsection \<open>createFunctionFolder\<close>

text \<open>
  The arguments are those of CreateFunctionFolderArgs, without the logger and the tracer's
  cache, which carry no file or name. \<^verbatim>\<open>maxDuration\<close> is a field of the type; the
  function does not take it out of its argument.
\<close>

record create_args =
  functionName :: string
  entry :: url
  config :: config
  includeFiles :: "url list"
  excludeFiles :: "string list option"
  maxDuration :: "int option"

text \<open>
  Modelled from the spec: copyDependenciesToFunction of lib/nft.js is not among the sources;
  the spec has it "copy transitive file dependencies into an isolated folder per function".
  Every file the tracer lists is stored at its path resolved against the folder given as
  \<^verbatim>\<open>outDir\<close>.
\<close>

definition copyDependenciesToFunction :: "platform \<Rightarrow> copy_args \<Rightarrow> world \<Rightarrow> world" where
  "copyDependenciesToFunction P a w =
     w\<lparr>files := fold (\<lambda>(rel, c) f. f(new_URL P rel (copy_outDir a) \<mapsto> c)) (nodeFileTrace P a) (files w),
       calls := calls w @ [CopyDependencies a]\<rparr>"

definition function_folder :: "platform \<Rightarrow> config \<Rightarrow> string \<Rightarrow> url" where
  "function_folder P cfg name = new_URL P (''./functions/'' @ name @ ''.func/'') (outDir cfg)"

definition createFunctionFolder :: "platform \<Rightarrow> create_args \<Rightarrow> world \<Rightarrow> world" where
  "createFunctionFolder P a w =
     (let functionFolder = function_folder P (config a) (functionName a);
          w1 = copyDependenciesToFunction P
                 \<lparr>copy_entry = entry a,
                  copy_outDir = functionFolder,
                  copy_includeFiles = includeFiles a,
                  copy_excludeFiles =
                    (case excludeFiles a of
                       None \<Rightarrow> []
                     | Some fs \<Rightarrow> map (\<lambda>file. new_URL P file (root (config a))) fs)\<rparr> w
      in writeJson (new_URL P ''./package.json'' functionFolder)
           (JObject [(''type'', JString ''module'')]) w1)"

subsection \<open>The integration's closure and its build hooks\<close>

text \<open>
  RouteData with the two fields the adapter reads (\<^verbatim>\<open>route.pattern.source\<close> is
  \<^verbatim>\<open>pattern_source\<close>); the options of VercelServerlessConfig; and the variables of the
  closure of vercelServerless. The entry points are a JavaScript Map from route objects to
  URLs, iterated in insertion order: a list of pairs. The hooks run in the order of the
  build, after astro:config:done has assigned the configuration.
\<close>

record route =
  component :: string
  pattern_source :: string

record route_definition =
  src :: string
  dest :: string

record options =
  opt_includeFiles :: "string list option"
  opt_excludeFiles :: "string list option"
  functionPerRoute :: bool
  edgeMiddleware :: bool
  opt_maxDuration :: "int option"

record closure =
  the_config :: config
  buildTempFolder :: url
  serverEntry :: string
  the_entryPoints :: "(route \<times> url) list"
  extraFilesToInclude :: "url list"



text \<open>
  mergeGlobbedIncludes returns the URLs it pushes onto the extra files, in the order of the
  pushes; the loop over an array stops at the first pattern on which \<^verbatim>\<open>glob.sync\<close>
  throws.
\<close>

fun mergeGlobbedIncludes :: "platform \<Rightarrow> glob_pattern \<Rightarrow> js_error + url list"
  and merge_each :: "platform \<Rightarrow> glob_pattern list \<Rightarrow> js_error + url list" where
  "mergeGlobbedIncludes P (GString globPattern) =
     (case glob_sync P globPattern of
        Inl e \<Rightarrow> Inl e
      | Inr paths \<Rightarrow> Inr (map (pathToFileURL P) paths))"
| "mergeGlobbedIncludes P (GArray patterns) = merge_each P patterns"
| "mergeGlobbedIncludes P GRegExp = Inr []"
| "merge_each P [] = Inr []"
| "merge_each P (pattern # rest) =
     (case mergeGlobbedIncludes P pattern of
        Inl e \<Rightarrow> Inl e
      | Inr entries \<Rightarrow>
          (case merge_each P rest of
             Inl e \<Rightarrow> Inl e
           | Inr others \<Rightarrow> Inr (entries @ others)))"

definition getRouteFuncName :: "route \<Rightarrow> string" where
  "getRouteFuncName r = js_replace ''src/pages/'' '''' (component r)"

definition getFallbackFuncName :: "url \<Rightarrow> string" where
  "getFallbackFuncName entryFile = remove_mjs (js_replace ''entry.'' '''' (basename entryFile))"

definition func_name :: "route \<Rightarrow> url \<Rightarrow> string" where
  "func_name r entryFile =
     (if startsWith (component r) ''src/pages/'' then getRouteFuncName r
      else getFallbackFuncName entryFile)"

text \<open>The loop over the entry points: one function folder and one route definition each.\<close>

fun function_per_entry ::
    "platform \<Rightarrow> options \<Rightarrow> config \<Rightarrow> url list \<Rightarrow> (route \<times> url) list \<Rightarrow>
     world \<times> route_definition list \<Rightarrow> world \<times> route_definition list" where
  "function_per_entry P opts cfg filesToInclude [] acc = acc"
| "function_per_entry P opts cfg filesToInclude ((r, entryFile) # rest) (w, routeDefinitions) =
     (let func = func_name r entryFile;
          w1 = createFunctionFolder P
                 \<lparr>functionName = func, entry = entryFile, config = cfg,
                  includeFiles = filesToInclude, excludeFiles = opt_excludeFiles opts,
                  maxDuration = opt_maxDuration opts\<rparr> w
      in function_per_entry P opts cfg filesToInclude rest
           (w1, routeDefinitions @ [\<lparr>src = pattern_source r, dest = func\<rparr>]))"

text \<open>
  The branch on \<^verbatim>\<open>_entryPoints.size\<close>: either the loop, or the single function
  \<^verbatim>\<open>__astro\<close> for the server entry in the temporary build folder.
\<close>

definition create_functions ::
    "platform \<Rightarrow> options \<Rightarrow> closure \<Rightarrow> url list \<Rightarrow> world \<Rightarrow> world \<times> route_definition list" where
  "create_functions P opts c filesToInclude w =
     (if the_entryPoints c \<noteq> [] then
        function_per_entry P opts (the_config c) filesToInclude (the_entryPoints c) (w, [])
      else
        (createFunctionFolder P
           \<lparr>functionName = ''__astro'',
            entry = new_URL P (serverEntry c) (buildTempFolder c),
            config = the_config c,
            includeFiles = filesToInclude, excludeFiles = opt_excludeFiles opts,
            maxDuration = opt_maxDuration opts\<rparr> w,
         [\<lparr>src = ''/.*'', dest = ''__astro''\<rparr>]))"

text \<open>
  The manifest is the literal of the source, not the route definitions collected above. The
  result of the hook shows the closure, the world and the local \<^verbatim>\<open>routeDefinitions\<close>
  as they are when the hook returns. The hook throws what \<^verbatim>\<open>glob.sync\<close> throws while
  the includes are merged and what validateRuntime throws, in both cases before it has
  created a function, and the build ends there.
\<close>

definition serverless_manifest :: json where
  "serverless_manifest =
     JObject [(''routes'', JArray [JObject [(''src'', JString ''.*''), (''dest'', JString ''/__astro'')]]),
              (''containerized'', JBool False)]"

record build_result =
  closure_after :: closure
  world_after :: world
  routeDefinitions :: "route_definition list"

definition astro_build_done :: "platform \<Rightarrow> options \<Rightarrow> closure \<times> world \<Rightarrow> js_error + build_result" where
  "astro_build_done P opts cw =
     (let (c, w) = cw
      in case (case vite_assetsInclude (the_config c) of
                 None \<Rightarrow> Inr []
               | Some g \<Rightarrow> if g = GString [] then Inr [] else mergeGlobbedIncludes P g) of
           Inl e \<Rightarrow> Inl e
         | Inr merged \<Rightarrow>
             (let c1 = c\<lparr>extraFilesToInclude := extraFilesToInclude c @ merged\<rparr>;
                  filesToInclude =
                    (case opt_includeFiles opts of
                       None \<Rightarrow> []
                     | Some fs \<Rightarrow> map (\<lambda>file. new_URL P file (root (the_config c1))) fs)
                    @ extraFilesToInclude c1
              in case validateRuntime P w of
                   Inl e \<Rightarrow> Inl e
                 | Inr w1 \<Rightarrow>
                     (let (w2, defs) = create_functions P opts c1 filesToInclude w1;
                          w3 = writeJson (new_URL P ''./config.json'' (outDir (the_config c1)))
                                 serverless_manifest w2;
                          w4 = removeDir (buildTempFolder c1) w3
                      in Inr \<lparr>closure_after = c1, world_after = w4, routeDefinitions = defs\<rparr>)))"

section \<open>serverless/entrypoint.ts\<close>

text \<open>
  The handler of createExports works on Node's request and response objects. What it calls
  (getRequest and setResponse of request-transform.js, the App of the framework,
  \<^verbatim>\<open>JSON.parse\<close>) is a parameter, and each call either returns or throws.
\<close>

definition ASTRO_LOCALS_HEADER :: string where
  "ASTRO_LOCALS_HEADER = ''x-astro-locals''"

record incoming_message =
  host :: "string option"
  payload :: string

record request =
  request_url :: string
  request_headers :: "string \<rightharpoonup> string"

record web_response =
  response_status :: int
  response_body :: string

record server_response =
  statusCode :: int
  ended :: bool
  sent :: string

record app =
  getRequest :: "string \<Rightarrow> incoming_message \<Rightarrow> js_error + request"
  app_match :: "request \<Rightarrow> js_error + route option"
  JSON_parse :: "string \<Rightarrow> js_error + json"
  app_render :: "request \<Rightarrow> route option \<Rightarrow> json \<Rightarrow> js_error + web_response"
  setResponse :: "web_response \<Rightarrow> server_response \<Rightarrow> js_error + server_response"

text \<open>
  \<^verbatim>\<open>a || b\<close> takes \<^verbatim>\<open>b\<close> when \<^verbatim>\<open>a\<close> is undefined, zero or the empty string.
\<close>

definition status_or :: "int option \<Rightarrow> int \<Rightarrow> int" where
  "status_or a b = (case a of None \<Rightarrow> b | Some n \<Rightarrow> if n = 0 then b else n)"

definition reason_or :: "string option \<Rightarrow> string \<Rightarrow> string" where
  "reason_or a b = (case a of None \<Rightarrow> b | Some r \<Rightarrow> if r = [] then b else r)"

definition origin_of :: "incoming_message \<Rightarrow> string" where
  "origin_of req = ''https://'' @ (case host req of None \<Rightarrow> ''undefined'' | Some h \<Rightarrow> h)"

definition read_locals :: "app \<Rightarrow> request \<Rightarrow> js_error + json" where
  "read_locals A rq =
     (case request_headers rq ASTRO_LOCALS_HEADER of
        None \<Rightarrow> Inr (JObject [])
      | Some localsAsString \<Rightarrow>
          if localsAsString \<noteq> [] then JSON_parse A localsAsString else Inr (JObject []))"

definition handler :: "app \<Rightarrow> incoming_message \<Rightarrow> server_response \<Rightarrow> js_error + server_response" where
  "handler A req res =
     (case getRequest A (origin_of req) req of
        Inl err \<Rightarrow>
          Inr (res\<lparr>statusCode := status_or (err_status err) 400,
                   ended := True,
                   sent := reason_or (err_reason err) ''Invalid request body''\<rparr>)
      | Inr rq \<Rightarrow>
          (case app_match A rq of
             Inl e \<Rightarrow> Inl e
           | Inr routeData \<Rightarrow>
               (case read_locals A rq of
                  Inl e \<Rightarrow> Inl e
                | Inr locals \<Rightarrow>
                    (case app_render A rq routeData locals of
                       Inl e \<Rightarrow> Inl e
                     | Inr response \<Rightarrow> setResponse A response res))))"

section \<open>The comment action of the actions-blog fixture\<close>

text \<open>
  The action is declared with \<^verbatim>\<open>accept: 'form'\<close> and an object schema of three
  strings, the body of at least ten characters. A form field is a string or a file, or is
  missing. The rows of the Comment table are the values the handler inserts.
\<close>

datatype form_value = FormString string | FormFile

type_synonym form_data = "string \<rightharpoonup> form_value"

record comment =
  postId :: string
  author :: string
  body :: string

record blog_entry =
  entry_id :: string
  entry_title :: string

datatype action_failure =
    ActionInputError "string list"
  | ActionError string string

text \<open>
  Modelled from the spec: the insert of astro:db is not among the sources; the spec calls the
  actions "CRUD handlers over an ORM-like query builder". The inserted values become the new
  last row of the table, and \<^verbatim>\<open>returning().get()\<close> gives that row back.
\<close>

definition db_insert :: "comment \<Rightarrow> comment list \<Rightarrow> comment \<times> comment list" where
  "db_insert row rows = (row, rows @ [row])"

definition comment_handler ::
    "blog_entry list \<Rightarrow> comment \<Rightarrow> comment list \<Rightarrow> action_failure + comment \<times> comment list" where
  "comment_handler blog input rows =
     (if find (\<lambda>b. entry_id b = postId input) blog = None
      then Inl (ActionError ''NOT_FOUND'' ''Post not found'')
      else Inr (db_insert \<lparr>postId = postId input, author = author input, body = body input\<rparr> rows))"

text \<open>
  Modelled from the spec: defineAction and the schema validator of astro:actions are not
  among the sources; the spec calls the actions "form-validated". A field passes
  \<^verbatim>\<open>z.string()\<close> when the form holds a string for it, \<^verbatim>\<open>min(10)\<close> asks for a
  length of at least ten, the fields that fail are reported, and the handler runs on the
  parsed input only when none fails.
\<close>

definition string_field :: "form_data \<Rightarrow> string \<Rightarrow> string option" where
  "string_field form name =
     (case form name of Some (FormString s) \<Rightarrow> Some s | _ \<Rightarrow> None)"

definition field_issues :: "form_data \<Rightarrow> string list" where
  "field_issues form =
     (if string_field form ''postId'' = None then [''postId''] else []) @
     (if string_field form ''author'' = None then [''author''] else []) @
     (case string_field form ''body'' of
        None \<Rightarrow> [''body'']
      | Some b \<Rightarrow> if length b < 10 then [''body''] else [])"

definition parse_input :: "form_data \<Rightarrow> string list + comment" where
  "parse_input form =
     (case (string_field form ''postId'', string_field form ''author'', string_field form ''body'') of
        (Some p, Some a, Some b) \<Rightarrow>
          if field_issues form = [] then Inr \<lparr>postId = p, author = a, body = b\<rparr>
          else Inl (field_issues form)
      | _ \<Rightarrow> Inl (field_issues form))"

definition comment_action ::
    "blog_entry list \<Rightarrow> form_data \<Rightarrow> comment list \<Rightarrow> (action_failure + comment) \<times> comment list" where
  "comment_action blog form rows =
     (case parse_input form of
        Inl issues \<Rightarrow> (Inl (ActionInputError issues), rows)
      | Inr input \<Rightarrow>
          (case comment_handler blog input rows of
             Inl e \<Rightarrow> (Inl e, rows)
           | Inr (row, rows') \<Rightarrow> (Inr row, rows')))"

section \<open>The virtual module of the Vue integration\<close>



text \<open>
  The variables of the closure of virtualAppEntrypoint. \<^verbatim>\<open>isBuild\<close> is undefined until
  the config hook runs, and \<^verbatim>\<open>appEntrypoint\<close> until configResolved finds the option.
\<close>

record plugin =
  isBuild :: "bool option"
  plugin_root :: string
  appEntrypoint :: "string option"

definition plugin_config :: "string \<Rightarrow> plugin \<Rightarrow> plugin" where
  "plugin_config command p = p\<lparr>isBuild := Some (command = ''build'')\<rparr>"










section \<open>What the specification says, in the terms of the embedding\<close>

text \<open>
  A manifest maps a route to a function when its \<^verbatim>\<open>routes\<close> array holds the entry
  \<^verbatim>\<open>{src: pattern, dest: function}\<close>.
\<close>

definition routes_of :: "json \<Rightarrow> json list" where
  "routes_of m =
     (case m of
        JObject members \<Rightarrow> (case map_of members ''routes'' of Some (JArray rs) \<Rightarrow> rs | _ \<Rightarrow> [])
      | _ \<Rightarrow> [])"

definition manifest_maps :: "json \<Rightarrow> string \<Rightarrow> string \<Rightarrow> bool" where
  "manifest_maps m pattern func =
     (JObject [(''src'', JString pattern), (''dest'', JString func)] \<in> set (routes_of m))"

definition json_at :: "world \<Rightarrow> url \<Rightarrow> json option" where
  "json_at w u = (case files w u of Some (JsonFile j) \<Rightarrow> Some j | _ \<Rightarrow> None)"

text \<open>What a run of astro:build:done leaves: nothing when it threw.\<close>

definition written_manifest :: "js_error + build_result \<Rightarrow> url \<Rightarrow> json option" where
  "written_manifest res u = (case res of Inl e \<Rightarrow> None | Inr r \<Rightarrow> json_at (world_after r) u)"

definition collected_definitions :: "js_error + build_result \<Rightarrow> route_definition list option" where
  "collected_definitions res = (case res of Inl e \<Rightarrow> None | Inr r \<Rightarrow> Some (routeDefinitions r))"

text \<open>The folders handed to the dependency copier, in the order of the calls.\<close>

fun folder_of_call :: "call \<Rightarrow> url list" where
  "folder_of_call (CopyDependencies a) = [copy_outDir a]"
| "folder_of_call _ = []"

definition copied_folders :: "call list \<Rightarrow> url list" where
  "copied_folders cs = concat (map folder_of_call cs)"

definition created_folders :: "js_error + build_result \<Rightarrow> url list option" where
  "created_folders res =
     (case res of Inl e \<Rightarrow> None | Inr r \<Rightarrow> Some (copied_folders (calls (world_after r))))"





section \<open>A concrete platform and project\<close>

text \<open>
  For evaluating the hooks on a concrete build: relative references of the form
  \<^verbatim>\<open>./name\<close> are appended to a base that ends with a slash, the output directory is
  \<^verbatim>\<open>.zeabur/output/\<close> under the root, and the local Node.js is 18.
\<close>

definition posix :: platform where
  "posix = \<lparr>
     new_URL = (\<lambda>rel base. base @ (if take 2 rel = ''./'' then drop 2 rel else rel)),
     getOutput = (\<lambda>r. r @ ''.zeabur/output/''),
     fileURLToPath = drop 7,
     pathToFileURL = (\<lambda>p. ''file://'' @ p),
     glob_sync = (\<lambda>g. if g = []
       then Inl (TypeError ''Patterns must be a string (non empty) or an array of strings'')
       else Inr []),
     nodeFileTrace = (\<lambda>a. [(''index.mjs'', Blob ''handler'')]),
     bundled_middleware = (\<lambda>m out h. (''file://'' @ out @ ''middleware.mjs'', Blob ''bundle'')),
     process_version = ''v18.19.0'',
     format_date = (\<lambda>d. d)\<rparr>"

definition site :: config where
  "site = \<lparr>
     root = ''file:///site/'',
     srcDir = ''file:///site/src/'',
     outDir = ''file:///site/.zeabur/output/'',
     build_server = ''file:///site/dist/'',
     build_serverEntry = ''index.mjs'',
     config_output = Server,
     vite_assetsInclude = None\<rparr>"

definition stale :: world where
  "stale = \<lparr>
     files = [''file:///site/.zeabur/output/static/old.html'' \<mapsto> Blob ''old'',
              ''file:///site/src/pages/index.astro'' \<mapsto> Blob ''page''],
     calls = [],
     console = []\<rparr>"

definition node22 :: platform where
  "node22 = posix\<lparr>process_version := ''v22.1.0''\<rparr>"

definition node16 :: platform where
  "node16 = posix\<lparr>process_version := ''v16.20.2''\<rparr>"

definition defaults :: options where
  "defaults = \<lparr>
     opt_includeFiles = None,
     opt_excludeFiles = None,
     functionPerRoute = True,
     edgeMiddleware = False,
     opt_maxDuration = None\<rparr>"

definition blog_route :: route where
  "blog_route = \<lparr>component = ''src/pages/blog.astro'', pattern_source = ''^/blog/?$''\<rparr>"

definition injected_route :: route where
  "injected_route = \<lparr>component = ''node_modules/kit/feed.ts'', pattern_source = ''^/feed/?$''\<rparr>"

definition built :: closure where
  "built = \<lparr>
     the_config = site,
     buildTempFolder = ''file:///site/dist/'',
     serverEntry = ''index.mjs'',
     the_entryPoints = [],
     extraFilesToInclude = []\<rparr>"

definition per_route :: closure where
  "per_route = built\<lparr>the_entryPoints :=
     [(blog_route, ''file:///site/dist/pages/entry.blog.astro.mjs''),
      (injected_route, ''file:///site/dist/pages/entry.feed.mjs'')]\<rparr>"

definition empty_glob :: closure where
  "empty_glob = built\<lparr>the_config := site\<lparr>vite_assetsInclude := Some (GArray [GString ''''])\<rparr>\<rparr>"

definition blog_function :: create_args where
  "blog_function = \<lparr>
     functionName = ''blog.astro'',
     entry = ''file:///site/dist/pages/entry.blog.astro.mjs'',
     config = site,
     includeFiles = [],
     excludeFiles = None,
     maxDuration = None\<rparr>"

definition bad_body :: js_error where
  "bad_body = \<lparr>
     err_name = ''Error'',
     err_message = ''request body is not readable'',
     err_status = None,
     err_reason = None\<rparr>"

definition no_template :: js_error where
  "no_template = \<lparr>
     err_name = ''Error'',
     err_message = ''template failed'',
     err_status = Some 500,
     err_reason = Some ''render''\<rparr>"

definition serving :: app where
  "serving = \<lparr>
     getRequest = (\<lambda>origin m. Inr \<lparr>request_url = origin @ payload m, request_headers = Map.empty\<rparr>),
     app_match = (\<lambda>rq. Inr None),
     JSON_parse = (\<lambda>s. Inr (JString s)),
     app_render = (\<lambda>rq routeData locals. Inr \<lparr>response_status = 200, response_body = ''ok''\<rparr>),
     setResponse = (\<lambda>response res.
       Inr (res\<lparr>statusCode := response_status response, ended := True, sent := response_body response\<rparr>))\<rparr>"

definition rejecting :: app where
  "rejecting = serving\<lparr>getRequest := (\<lambda>origin m. Inl bad_body)\<rparr>"

definition crashing :: app where
  "crashing = serving\<lparr>app_render := (\<lambda>rq routeData locals. Inl no_template)\<rparr>"

definition get_home :: incoming_message where
  "get_home = \<lparr>host = Some ''example.com'', payload = ''/''\<rparr>"

definition fresh :: server_response where
  "fresh = \<lparr>statusCode = 200, ended = False, sent = ''''\<rparr>"

definition posts :: "blog_entry list" where
  "posts = [\<lparr>entry_id = ''first-post'', entry_title = ''First post''\<rparr>]"

definition comment_form :: "string \<Rightarrow> string \<Rightarrow> form_data" where
  "comment_form post text =
     [''postId'' \<mapsto> FormString post, ''author'' \<mapsto> FormString ''Ben'', ''body'' \<mapsto> FormString text]"



section \<open>Properties of the static adapter\<close>

lemma inside_self_append: "inside dir (dir @ rest)"
  by (simp add: inside_def)

text \<open>
  C9. The static adapter empties the output directory at astro:build:start: afterwards no
  file lies in \<^verbatim>\<open>getOutput(root)\<close>, files elsewhere are as before, and the one helper
  call made is emptyDir on that directory. At astro:build:done it writes config.json,
  resolved against that same directory, and the content is exactly the routes list
  \<^verbatim>\<open>[{src: '.*', dest: '/__astro'}]\<close> with containerized false; no other file changes.
\<close>

theorem static_adapter_empties_and_writes_config:
  "(\<forall>u. files (vercelStatic_build_start P cfg w) u =
          (if inside (getOutput P (root cfg)) u then None else files w u))
   \<and> calls (vercelStatic_build_start P cfg w) = calls w @ [EmptyDir (getOutput P (root cfg))]
   \<and> files (vercelStatic_build_done P cfg w) (new_URL P ''./config.json'' (getOutput P (root cfg))) =
       Some (JsonFile (JObject
         [(''routes'', JArray [JObject [(''src'', JString ''.*''), (''dest'', JString ''/__astro'')]]),
          (''containerized'', JBool False)]))
   \<and> (\<forall>u. u \<noteq> new_URL P ''./config.json'' (getOutput P (root cfg)) \<longrightarrow>
          files (vercelStatic_build_done P cfg w) u = files w u)
   \<and> calls (vercelStatic_build_done P cfg w) =
       calls w @
       [WriteJson (new_URL P ''./config.json'' (getOutput P (root cfg)))
          (JObject
            [(''routes'', JArray [JObject [(''src'', JString ''.*''), (''dest'', JString ''/__astro'')]]),
             (''containerized'', JBool False)])]"
  by (simp add: vercelStatic_build_start_def vercelStatic_build_done_def emptyDir_def
      writeJson_def static_manifest_def)

theorem static_adapter_witness:
  "files (vercelStatic_build_start posix site stale) ''file:///site/.zeabur/output/static/old.html'' = None
   \<and> files (vercelStatic_build_start posix site stale) ''file:///site/src/pages/index.astro'' = Some (Blob ''page'')
   \<and> files (vercelStatic_build_done posix site (vercelStatic_build_start posix site stale))
        ''file:///site/.zeabur/output/config.json'' =
       Some (JsonFile (JObject
         [(''routes'', JArray [JObject [(''src'', JString ''.*''), (''dest'', JString ''/__astro'')]]),
          (''containerized'', JBool False)]))
   \<and> files (vercelStatic_build_done posix site (vercelStatic_build_start posix site stale))
        ''file:///site/src/pages/index.astro'' = Some (Blob ''page'')"
proof -
  note t1 = static_adapter_empties_and_writes_config [of posix site stale]
  note t2 = static_adapter_empties_and_writes_config
    [of posix site "vercelStatic_build_start posix site stale"]
  have out: "getOutput posix (root site) = ''file:///site/.zeabur/output/''"
    by (simp add: posix_def site_def)
  have cfg: "new_URL posix ''./config.json'' ''file:///site/.zeabur/output/'' =
      ''file:///site/.zeabur/output/config.json''"
    by (simp add: posix_def)
  have a: "files (vercelStatic_build_start posix site stale)
      ''file:///site/.zeabur/output/static/old.html'' = None"
    using t1 by (simp add: out inside_def)
  have b: "files (vercelStatic_build_start posix site stale)
      ''file:///site/src/pages/index.astro'' = Some (Blob ''page'')"
    using t1 by (simp add: out inside_def stale_def)
  have c: "files (vercelStatic_build_done posix site (vercelStatic_build_start posix site stale))
        ''file:///site/.zeabur/output/config.json'' =
       Some (JsonFile (JObject
         [(''routes'', JArray [JObject [(''src'', JString ''.*''), (''dest'', JString ''/__astro'')]]),
          (''containerized'', JBool False)]))"
    using t2 by (simp add: out cfg)
  have d: "files (vercelStatic_build_done posix site (vercelStatic_build_start posix site stale))
        ''file:///site/src/pages/index.astro'' = Some (Blob ''page'')"
    using t2 b by (simp add: out cfg)
  show ?thesis using a b c d by simp
qed

section \<open>Properties of validateRuntime\<close>

lemma lookup_version_cases:
  "lookup_version m =
     (if m = ''16'' then Own (Deprecated ''February 6 2024'')
      else if m = ''18'' then Own Current
      else if m = ''20'' then Own Beta
      else if m \<in> set Object_prototype then Inherited else Undefined)"
  by (simp add: lookup_version_def SUPPORTED_NODE_VERSIONS_def)

lemma warn_eq_iff: "(warn xs w = warn ys w) = (xs = ys)"
proof
  assume "warn xs w = warn ys w"
  then have "console (warn xs w) = console (warn ys w)" by simp
  then show "xs = ys" by (simp add: warn_def)
qed simp

lemma warn_Nil: "warn [] w = w"
  by (simp add: warn_def)

lemma unsupported_not_beta: "unsupported_warnings m \<noteq> beta_warnings m"
  by (simp add: unsupported_warnings_def beta_warnings_def)

lemma unsupported_not_deprecated: "unsupported_warnings m \<noteq> deprecated_warnings P m r"
  by (simp add: unsupported_warnings_def deprecated_warnings_def)

text \<open>
  C4. validateRuntime is not safe on every Node.js version string. When the major component
  of \<^verbatim>\<open>process.version\<close> is none of 16, 18 and 20 (and no property name of
  \<^verbatim>\<open>Object.prototype\<close>), the lookup in SUPPORTED_NODE_VERSIONS yields undefined and the
  function throws a TypeError on reading \<^verbatim>\<open>support.status\<close>; the warning "is not
  supported", which stands behind that read, is never what the function prints. When the
  major component is a key of the table, the function returns, having printed warnings only.
\<close>

theorem validateRuntime_fails_on_unlisted_version:
  "(major_of (process_version P) \<notin> {''16'', ''18'', ''20''} \<and>
    major_of (process_version P) \<notin> set Object_prototype \<longrightarrow>
      lookup_version (major_of (process_version P)) = Undefined \<and>
      validateRuntime P w =
        Inl (TypeError ''Cannot read properties of undefined (reading 'status')''))
   \<and> (major_of (process_version P) \<in> {''16'', ''18'', ''20''} \<longrightarrow>
        (\<exists>lines. validateRuntime P w = Inr (warn lines w)))
   \<and> validateRuntime P w \<noteq> Inr (warn (unsupported_warnings (major_of (process_version P))) w)"
proof (intro conjI impI)
  assume a: "major_of (process_version P) \<notin> {''16'', ''18'', ''20''} \<and>
    major_of (process_version P) \<notin> set Object_prototype"
  then show u: "lookup_version (major_of (process_version P)) = Undefined"
    by (simp add: lookup_version_cases)
  show "validateRuntime P w =
        Inl (TypeError ''Cannot read properties of undefined (reading 'status')'')"
    by (simp add: validateRuntime_def Let_def u read_status_def)
next
  assume "major_of (process_version P) \<in> {''16'', ''18'', ''20''}"
  then consider "major_of (process_version P) = ''16''" | "major_of (process_version P) = ''18''"
    | "major_of (process_version P) = ''20''" by auto
  then show "\<exists>lines. validateRuntime P w = Inr (warn lines w)"
  proof cases
    case 1
    then show ?thesis
      by (auto simp add: validateRuntime_def Let_def lookup_version_cases read_status_def)
  next
    case 2
    then have "validateRuntime P w = Inr (warn [] w)"
      by (simp add: validateRuntime_def Let_def lookup_version_cases read_status_def warn_Nil)
    then show ?thesis by blast
  next
    case 3
    then show ?thesis
      by (auto simp add: validateRuntime_def Let_def lookup_version_cases read_status_def)
  qed
next
  show "validateRuntime P w \<noteq> Inr (warn (unsupported_warnings (major_of (process_version P))) w)"
  proof (cases "lookup_version (major_of (process_version P))")
    case Undefined
    then show ?thesis by (simp add: validateRuntime_def Let_def read_status_def)
  next
    case (Own s)
    show ?thesis
    proof (cases s)
      case Current
      with Own have "validateRuntime P w = Inr (warn [] w)"
        by (simp add: validateRuntime_def Let_def read_status_def warn_Nil)
      then show ?thesis by (simp add: warn_eq_iff unsupported_warnings_def)
    next
      case Beta
      with Own show ?thesis
        by (simp add: validateRuntime_def Let_def read_status_def warn_eq_iff
            unsupported_not_beta [symmetric])
    next
      case (Deprecated r)
      with Own show ?thesis
        by (simp add: validateRuntime_def Let_def read_status_def warn_eq_iff
            unsupported_not_deprecated [symmetric])
    qed
  next
    case Inherited
    then have "validateRuntime P w = Inr (warn [] w)"
      by (simp add: validateRuntime_def Let_def read_status_def warn_Nil)
    then show ?thesis by (simp add: warn_eq_iff unsupported_warnings_def)
  qed
qed

theorem validateRuntime_node22_throws:
  "validateRuntime node22 stale =
     Inl (TypeError ''Cannot read properties of undefined (reading 'status')'')
   \<and> console (projr (validateRuntime node16 stale)) =
       deprecated_warnings node16 ''16'' ''February 6 2024''"
proof -
  have m: "major_of (process_version node22) = ''22''"
    by (simp add: node22_def posix_def major_of_def)
  have n: "''22'' \<notin> set Object_prototype" by (simp add: Object_prototype_def)
  have a: "validateRuntime node22 stale =
     Inl (TypeError ''Cannot read properties of undefined (reading 'status')'')"
    using validateRuntime_fails_on_unlisted_version [of node22 stale] n by (simp add: m)
  have m16: "major_of (process_version node16) = ''16''"
    by (simp add: node16_def posix_def major_of_def)
  have b: "console (projr (validateRuntime node16 stale)) =
       deprecated_warnings node16 ''16'' ''February 6 2024''"
    by (simp add: validateRuntime_def Let_def m16 lookup_version_cases read_status_def warn_def stale_def)
  show ?thesis using a b by simp
qed

section \<open>Properties of createFunctionFolder\<close>








text \<open>
  C8. The result of createFunctionFolder is independent of maxDuration: two invocations whose
  arguments agree in everything but maxDuration leave the same files and make the same calls.
\<close>

theorem createFunctionFolder_ignores_maxDuration:
  "functionName a = functionName b \<and> entry a = entry b \<and> config a = config b \<and>
   includeFiles a = includeFiles b \<and> excludeFiles a = excludeFiles b \<longrightarrow>
   createFunctionFolder P a w = createFunctionFolder P b w"
  by (auto simp add: createFunctionFolder_def Let_def split: option.splits)

theorem createFunctionFolder_maxDuration_witness:
  "createFunctionFolder posix (blog_function\<lparr>maxDuration := Some 30\<rparr>) stale =
   createFunctionFolder posix (blog_function\<lparr>maxDuration := Some 900\<rparr>) stale
   \<and> blog_function\<lparr>maxDuration := Some 30\<rparr> \<noteq> blog_function\<lparr>maxDuration := Some 900\<rparr>"
proof -
  have "createFunctionFolder posix (blog_function\<lparr>maxDuration := Some 30\<rparr>) stale =
   createFunctionFolder posix (blog_function\<lparr>maxDuration := Some 900\<rparr>) stale"
    using createFunctionFolder_ignores_maxDuration
      [of "blog_function\<lparr>maxDuration := Some 30\<rparr>" "blog_function\<lparr>maxDuration := Some 900\<rparr>"
          posix stale]
    by simp
  moreover have "blog_function\<lparr>maxDuration := Some 30\<rparr> \<noteq> blog_function\<lparr>maxDuration := Some 900\<rparr>"
    by (simp add: blog_function_def)
  ultimately show ?thesis by simp
qed

section \<open>Properties of the astro:build:ssr hook\<close>



section \<open>Properties of the astro:build:done hook\<close>















text \<open>
  C1. The manifest does not have one entry per route. For a build with the two routes
  \<^verbatim>\<open>/blog\<close> and \<^verbatim>\<open>/feed\<close> on Node.js 18 the hook creates the functions
  \<^verbatim>\<open>blog.astro\<close> and \<^verbatim>\<open>feed\<close> and collects the two route definitions that map each
  pattern source to its function; the config.json it writes holds neither of them. It holds
  the literal of line 233, which sends every request to \<^verbatim>\<open>/__astro\<close>, a function this
  build has not created.
\<close>

theorem build_done_manifest_omits_routes:
  "collected_definitions (astro_build_done posix defaults (per_route, stale)) =
     Some [\<lparr>src = ''^/blog/?$'', dest = ''blog.astro''\<rparr>, \<lparr>src = ''^/feed/?$'', dest = ''feed''\<rparr>]
   \<and> created_folders (astro_build_done posix defaults (per_route, stale)) =
       Some [''file:///site/.zeabur/output/functions/blog.astro.func/'',
             ''file:///site/.zeabur/output/functions/feed.func/'']
   \<and> written_manifest (astro_build_done posix defaults (per_route, stale))
        ''file:///site/.zeabur/output/config.json'' =
       Some (JObject
         [(''routes'', JArray [JObject [(''src'', JString ''.*''), (''dest'', JString ''/__astro'')]]),
          (''containerized'', JBool False)])
   \<and> \<not> manifest_maps (JObject
         [(''routes'', JArray [JObject [(''src'', JString ''.*''), (''dest'', JString ''/__astro'')]]),
          (''containerized'', JBool False)]) ''^/blog/?$'' ''blog.astro''
   \<and> \<not> manifest_maps (JObject
         [(''routes'', JArray [JObject [(''src'', JString ''.*''), (''dest'', JString ''/__astro'')]]),
          (''containerized'', JBool False)]) ''^/feed/?$'' ''feed''"
  by code_simp

text \<open>
  With \<^verbatim>\<open>vite.assetsInclude = ['']\<close> the hook throws what \<^verbatim>\<open>glob.sync\<close> throws on the
  empty pattern, before the runtime is validated and before anything is written.
\<close>

lemma build_done_throws_on_empty_glob:
  "astro_build_done posix defaults (empty_glob, stale) =
     Inl (TypeError ''Patterns must be a string (non empty) or an array of strings'')"
  by (simp add: astro_build_done_def empty_glob_def built_def site_def posix_def)

section \<open>Properties of the serverless handler\<close>

text \<open>
  C3, as amended. An error thrown while the request is built from the incoming message is
  caught: the handler ends the response with the error's status (400 when it has none) and
  the error's reason ("Invalid request body" when it has none) and returns. Every error
  thrown after that, by the route match, by parsing the locals header, by rendering or by
  writing the response, is propagated to the caller as it is.
\<close>

theorem handler_answers_request_errors_and_propagates_the_rest:
  "(\<forall>err. getRequest A (origin_of req) req = Inl err \<longrightarrow>
      handler A req res =
        Inr (res\<lparr>statusCode := (case err_status err of None \<Rightarrow> 400 | Some n \<Rightarrow> if n = 0 then 400 else n),
                 ended := True,
                 sent := (case err_reason err of None \<Rightarrow> ''Invalid request body''
                          | Some t \<Rightarrow> if t = [] then ''Invalid request body'' else t)\<rparr>))
   \<and> (\<forall>rq. getRequest A (origin_of req) req = Inr rq \<longrightarrow>
        (\<forall>e. app_match A rq = Inl e \<longrightarrow> handler A req res = Inl e)
        \<and> (\<forall>routeData. app_match A rq = Inr routeData \<longrightarrow>
              (\<forall>s e. request_headers rq ''x-astro-locals'' = Some s \<and> s \<noteq> [] \<and> JSON_parse A s = Inl e \<longrightarrow>
                 handler A req res = Inl e)
              \<and> (\<forall>locals. read_locals A rq = Inr locals \<longrightarrow>
                    (\<forall>e. app_render A rq routeData locals = Inl e \<longrightarrow> handler A req res = Inl e)
                    \<and> (\<forall>response. app_render A rq routeData locals = Inr response \<longrightarrow>
                          handler A req res = setResponse A response res))))"
  by (auto simp add: handler_def read_locals_def status_or_def reason_or_def ASTRO_LOCALS_HEADER_def
      split: sum.splits option.splits)

theorem handler_witness:
  "handler crashing get_home fresh = Inl no_template
   \<and> handler serving get_home fresh = Inr \<lparr>statusCode = 200, ended = True, sent = ''ok''\<rparr>"
proof -
  let ?rq = "\<lparr>request_url = ''https://example.com/'', request_headers = Map.empty\<rparr>"
  have g: "getRequest crashing (origin_of get_home) get_home = Inr ?rq"
    "getRequest serving (origin_of get_home) get_home = Inr ?rq"
    by (simp_all add: crashing_def serving_def origin_of_def get_home_def)
  have m: "app_match crashing ?rq = Inr None" "app_match serving ?rq = Inr None"
    by (simp_all add: crashing_def serving_def)
  have l: "read_locals crashing ?rq = Inr (JObject [])" "read_locals serving ?rq = Inr (JObject [])"
    by (simp_all add: read_locals_def)
  have r: "app_render crashing ?rq None (JObject []) = Inl no_template"
    "app_render serving ?rq None (JObject []) = Inr \<lparr>response_status = 200, response_body = ''ok''\<rparr>"
    by (simp_all add: crashing_def serving_def)
  have a: "handler crashing get_home fresh = Inl no_template"
    using handler_answers_request_errors_and_propagates_the_rest [of crashing get_home fresh] g m l r
    by simp
  have "handler serving get_home fresh =
      setResponse serving \<lparr>response_status = 200, response_body = ''ok''\<rparr> fresh"
    using handler_answers_request_errors_and_propagates_the_rest [of serving get_home fresh] g m l r
    by simp
  then have b: "handler serving get_home fresh = Inr \<lparr>statusCode = 200, ended = True, sent = ''ok''\<rparr>"
    by (simp add: serving_def fresh_def)
  show ?thesis using a b by simp
qed

text \<open>
  C3 as stated fails: when getRequest throws, the handler does not throw; it answers 400.
\<close>

theorem handler_recovers_from_request_error:
  "getRequest rejecting (origin_of get_home) get_home = Inl bad_body
   \<and> handler rejecting get_home fresh =
       Inr \<lparr>statusCode = 400, ended = True, sent = ''Invalid request body''\<rparr>
   \<and> handler rejecting get_home fresh \<noteq> Inl bad_body"
  by (simp add: handler_def rejecting_def serving_def bad_body_def fresh_def status_or_def
      reason_or_def)

section \<open>Properties of the comment action\<close>

lemma find_None_ids: "(find (\<lambda>b. entry_id b = p) blog = None) = (p \<notin> entry_id ` set blog)"
  by (auto simp add: find_None_iff)

lemma parse_input_Inr:
  "(parse_input form = Inr input) =
   (form ''postId'' = Some (FormString (postId input)) \<and>
    form ''author'' = Some (FormString (author input)) \<and>
    form ''body'' = Some (FormString (body input)) \<and> 10 \<le> length (body input) \<and>
    input = \<lparr>postId = postId input, author = author input, body = body input\<rparr>)"
  by (cases input)
    (auto simp add: parse_input_def field_issues_def string_field_def
      split: option.splits form_value.splits)

text \<open>
  C5. The comment action returns a row only for a form whose body is a string of at least
  ten characters; a form whose body is shorter (or is no string) gets an input error that
  names the body, and the table is as before. For a form with the three strings and a body
  long enough, a postId that matches no entry of the blog collection gives the ActionError
  NOT_FOUND "Post not found" and leaves the table as before, and a postId that matches one
  appends the comment (postId, body, author) to the table and returns that row. The handler
  by itself does the same on every input it is given.
\<close>

theorem comment_action_validates_finds_and_inserts:
  "(\<forall>row rows'. comment_action blog form rows = (Inr row, rows') \<longrightarrow>
      (\<exists>b. form ''body'' = Some (FormString b) \<and> 10 \<le> length b))
   \<and> ((\<forall>b. form ''body'' = Some (FormString b) \<longrightarrow> length b < 10) \<longrightarrow>
        (\<exists>issues. comment_action blog form rows = (Inl (ActionInputError issues), rows)
                  \<and> ''body'' \<in> set issues))
   \<and> (\<forall>p a b. form ''postId'' = Some (FormString p) \<and> form ''author'' = Some (FormString a) \<and>
        form ''body'' = Some (FormString b) \<and> 10 \<le> length b \<longrightarrow>
        (p \<notin> entry_id ` set blog \<longrightarrow>
           comment_action blog form rows = (Inl (ActionError ''NOT_FOUND'' ''Post not found''), rows))
        \<and> (p \<in> entry_id ` set blog \<longrightarrow>
             comment_action blog form rows =
               (Inr \<lparr>postId = p, author = a, body = b\<rparr>,
                rows @ [\<lparr>postId = p, author = a, body = b\<rparr>])))
   \<and> (\<forall>input. comment_handler blog input rows =
        (if postId input \<in> entry_id ` set blog
         then Inr (\<lparr>postId = postId input, author = author input, body = body input\<rparr>,
                   rows @ [\<lparr>postId = postId input, author = author input, body = body input\<rparr>])
         else Inl (ActionError ''NOT_FOUND'' ''Post not found'')))"
proof (intro conjI allI impI)
  fix row rows'
  assume "comment_action blog form rows = (Inr row, rows')"
  then obtain input where "parse_input form = Inr input"
    by (auto simp add: comment_action_def split: sum.splits)
  then show "\<exists>b. form ''body'' = Some (FormString b) \<and> 10 \<le> length b"
    by (auto simp add: parse_input_Inr)
next
  assume short: "\<forall>b. form ''body'' = Some (FormString b) \<longrightarrow> length b < 10"
  have "''body'' \<in> set (field_issues form)"
    using short by (auto simp add: field_issues_def string_field_def split: option.splits form_value.splits)
  moreover from this have "parse_input form = Inl (field_issues form)"
    by (auto simp add: parse_input_def split: option.splits)
  ultimately show "\<exists>issues. comment_action blog form rows = (Inl (ActionInputError issues), rows)
                  \<and> ''body'' \<in> set issues"
    by (simp add: comment_action_def)
next
  fix p a b
  assume v: "form ''postId'' = Some (FormString p) \<and> form ''author'' = Some (FormString a) \<and>
        form ''body'' = Some (FormString b) \<and> 10 \<le> length b"
  then have pi: "parse_input form = Inr \<lparr>postId = p, author = a, body = b\<rparr>"
    by (simp add: parse_input_Inr)
  {
    assume "p \<notin> entry_id ` set blog"
    then show "comment_action blog form rows = (Inl (ActionError ''NOT_FOUND'' ''Post not found''), rows)"
      by (simp add: comment_action_def pi comment_handler_def find_None_ids)
  }
  {
    assume "p \<in> entry_id ` set blog"
    then show "comment_action blog form rows =
               (Inr \<lparr>postId = p, author = a, body = b\<rparr>,
                rows @ [\<lparr>postId = p, author = a, body = b\<rparr>])"
      by (simp add: comment_action_def pi comment_handler_def find_None_ids db_insert_def)
  }
next
  fix input
  show "comment_handler blog input rows =
        (if postId input \<in> entry_id ` set blog
         then Inr (\<lparr>postId = postId input, author = author input, body = body input\<rparr>,
                   rows @ [\<lparr>postId = postId input, author = author input, body = body input\<rparr>])
         else Inl (ActionError ''NOT_FOUND'' ''Post not found''))"
    by (simp add: comment_handler_def find_None_ids db_insert_def)
qed

theorem comment_action_witness:
  "comment_action posts (comment_form ''first-post'' ''Too short'') [] =
     (Inl (ActionInputError [''body'']), [])
   \<and> comment_action posts (comment_form ''bogus'' ''This should be long enough.'') [] =
       (Inl (ActionError ''NOT_FOUND'' ''Post not found''), [])
   \<and> comment_action posts (comment_form ''first-post'' ''This should be long enough.'') [] =
       (Inr \<lparr>postId = ''first-post'', author = ''Ben'', body = ''This should be long enough.''\<rparr>,
        [\<lparr>postId = ''first-post'', author = ''Ben'', body = ''This should be long enough.''\<rparr>])"
proof -
  note t1 = comment_action_validates_finds_and_inserts
    [of posts "comment_form ''bogus'' ''This should be long enough.''" "[]"]
  note t2 = comment_action_validates_finds_and_inserts
    [of posts "comment_form ''first-post'' ''This should be long enough.''" "[]"]
  have ids: "entry_id ` set posts = {''first-post''}" by (simp add: posts_def)
  have a: "comment_action posts (comment_form ''first-post'' ''Too short'') [] =
     (Inl (ActionInputError [''body'']), [])"
    by (simp add: comment_action_def parse_input_def field_issues_def string_field_def comment_form_def)
  have b: "comment_action posts (comment_form ''bogus'' ''This should be long enough.'') [] =
       (Inl (ActionError ''NOT_FOUND'' ''Post not found''), [])"
    using t1 by (simp add: ids comment_form_def)
  have c: "comment_action posts (comment_form ''first-post'' ''This should be long enough.'') [] =
       (Inr \<lparr>postId = ''first-post'', author = ''Ben'', body = ''This should be long enough.''\<rparr>,
        [\<lparr>postId = ''first-post'', author = ''Ben'', body = ''This should be long enough.''\<rparr>])"
    using t2 by (simp add: ids comment_form_def)
  show ?thesis using a b c by simp
qed

section \<open>Properties of the Vue virtual module\<close>








end
